theory Spec2Isabelle
  imports Main
begin

section \<open>The data loader of the static site (src/lib/data.ts)\<close>

text \<open>
  The module under study is seven lines of TypeScript:
  \<^verbatim>\<open>
  import { ExportedNeuralake } from './types'

  const response = await fetch('/data.json')
  if (!response.ok) {
    throw new Error(`Failed to load data: ${response.statusText}`)
  }

  export const neuralake = await response.json() as ExportedNeuralake
  \<close>
  Its statements run once, when the module is evaluated. Everything it calls belongs to
  the host (the Fetch API and the JSON reader behind \<open>response.json()\<close>), so the host is
  an explicit argument of the model: a network that answers a request with a response
  (whose body arrives or breaks off), and a parser that reads a body. The theorems below
  hold for every network and every parser.
\<close>

subsection \<open>Data\<close>

text \<open>
  The exceptions the module can end with. \<open>Error\<close> is the one the module constructs
  itself with \<open>new Error(...)\<close>; \<open>TypeError\<close> is what \<open>fetch\<close> rejects with when no response
  arrives, and what \<open>response.json()\<close> rejects with when the body cannot be read to its
  end; \<open>SyntaxError\<close> is what \<open>response.json()\<close> rejects with when the body was read and
  does not parse. Each carries its message.
\<close>

datatype js_error = TypeError string | Error string | SyntaxError string

text \<open>What \<open>fetch\<close> sends: the request built from its arguments.\<close>

record request =
  req_method :: string
  req_url :: string
  req_headers :: "(string \<times> string) list"
  req_body :: "string option"

text \<open>
  The body of a response is a stream, read only when \<open>response.json()\<close> asks for it:
  either all of it arrives, or the transfer or its decoding breaks off with a message.
\<close>

datatype body_read = Arrived string | Failed string

text \<open>
  What \<open>fetch\<close> resolves to. The module reads \<open>ok\<close>, \<open>statusText\<close> and the body; the
  headers are part of every response and are kept so that the model can say the module
  ignores them.
\<close>

record response =
  status :: nat
  statusText :: string
  headers :: "(string \<times> string) list"
  body :: body_read

text \<open>
  The host: \<open>network\<close> answers a request with a response or fails with a message (no
  response at all); a \<open>json_parser\<close> reads a body into a value of type \<open>'v\<close> or fails with
  a message. The type of values is a parameter: the module never inspects the value.
\<close>

type_synonym network = "request \<Rightarrow> string + response"

type_synonym 'v json_parser = "string \<Rightarrow> string + 'v"

text \<open>
  JSON values, for the scenarios that name a concrete document. The number type is a
  parameter (the host's numbers are IEEE doubles, which no scenario here uses).
\<close>

datatype 'n json =
    JNull
  | JBool bool
  | JNumber 'n
  | JString string
  | JArray "'n json list"
  | JObject "(string \<times> 'n json) list"

subsection \<open>The host operations the module calls\<close>

text \<open>
  \<open>response.ok\<close> is a getter of the Fetch API: true exactly for a status in 200..299.
\<close>

definition ok :: "response \<Rightarrow> bool" where
  "ok r \<longleftrightarrow> 200 \<le> status r \<and> status r \<le> 299"

text \<open>
  \<open>fetch(input)\<close> with no second argument: a GET of \<open>input\<close> with an empty header list and
  no body. The call is recorded in the log of requests sent; a network failure rejects
  with a \<open>TypeError\<close>.
\<close>

definition fetch :: "network \<Rightarrow> string \<Rightarrow> request list \<Rightarrow> (js_error + response) \<times> request list" where
  "fetch net input log =
     (let rq = \<lparr>req_method = ''GET'', req_url = input, req_headers = [], req_body = None\<rparr>
      in (case net rq of Inl m \<Rightarrow> Inl (TypeError m) | Inr r \<Rightarrow> Inr r, log @ [rq]))"

text \<open>
  \<open>response.json()\<close>: the body is read to its end and handed to the host's parser. A body
  that breaks off rejects with a \<open>TypeError\<close>; a body that arrived and does not parse
  rejects with a \<open>SyntaxError\<close>.
\<close>

definition response_json :: "'v json_parser \<Rightarrow> response \<Rightarrow> js_error + 'v" where
  "response_json parse r =
     (case body r of
        Failed m \<Rightarrow> Inl (TypeError m)
      | Arrived text \<Rightarrow>
          (case parse text of Inl m \<Rightarrow> Inl (SyntaxError m) | Inr v \<Rightarrow> Inr v))"

subsection \<open>The module body\<close>

text \<open>
  The three statements of data.ts, in order. The result is \<open>Inl e\<close> when evaluation ends
  with the exception \<open>e\<close>, and \<open>Inr v\<close> when it reaches the export and binds \<open>neuralake\<close> to
  \<open>v\<close>; the second component is the log of requests sent so far. The cast
  \<open>as ExportedNeuralake\<close> is erased by the compiler and has no counterpart here.
\<close>

definition data_ts :: "network \<Rightarrow> 'v json_parser \<Rightarrow> request list \<Rightarrow> (js_error + 'v) \<times> request list" where
  "data_ts net parse log =
     (case fetch net ''/data.json'' log of
        (Inl e, log') \<Rightarrow> (Inl e, log')
      | (Inr response, log') \<Rightarrow>
          if \<not> ok response
          then (Inl (Error (''Failed to load data: '' @ statusText response)), log')
          else (response_json parse response, log'))"

text \<open>The one request the module sends.\<close>

definition data_request :: request where
  "data_request = \<lparr>req_method = ''GET'', req_url = ''/data.json'', req_headers = [], req_body = None\<rparr>"

subsection \<open>Module evaluation and the exported binding\<close>

text \<open>
  An ECMAScript module is evaluated at most once. Its record is unevaluated, evaluated
  (the binding \<open>neuralake\<close> holds a value) or evaluated with an error (the binding was never
  initialised). A later import of an evaluated module runs nothing: it sees the binding,
  or the recorded error again.
\<close>

datatype 'v module_status = Unevaluated | Evaluated 'v | EvaluationError js_error

record 'v realm =
  requests :: "request list"
  data_module :: "'v module_status"

definition initial_realm :: "'v realm" where
  "initial_realm = \<lparr>requests = [], data_module = Unevaluated\<rparr>"

definition import_neuralake :: "network \<Rightarrow> 'v json_parser \<Rightarrow> 'v realm \<Rightarrow> (js_error + 'v) \<times> 'v realm" where
  "import_neuralake net parse st =
     (case data_module st of
        Unevaluated \<Rightarrow>
          (case data_ts net parse (requests st) of
             (Inl e, log) \<Rightarrow> (Inl e, \<lparr>requests = log, data_module = EvaluationError e\<rparr>)
           | (Inr v, log) \<Rightarrow> (Inr v, \<lparr>requests = log, data_module = Evaluated v\<rparr>))
      | Evaluated v \<Rightarrow> (Inr v, st)
      | EvaluationError e \<Rightarrow> (Inl e, st))"

text \<open>The exported binding as a consumer can observe it: a value, or nothing.\<close>

definition neuralake :: "'v realm \<Rightarrow> 'v option" where
  "neuralake st = (case data_module st of Evaluated v \<Rightarrow> Some v | _ \<Rightarrow> None)"

text \<open>A consumer that imports and reads the binding \<open>n\<close> times in a row.\<close>

fun read_many :: "network \<Rightarrow> 'v json_parser \<Rightarrow> nat \<Rightarrow> 'v realm \<Rightarrow> (js_error + 'v) list \<times> 'v realm" where
  "read_many net parse 0 st = ([], st)"
| "read_many net parse (Suc n) st =
     (case import_neuralake net parse st of
        (x, st') \<Rightarrow> (case read_many net parse n st' of (xs, st'') \<Rightarrow> (x # xs, st'')))"

text \<open>
  A transport failure is the module's own \<open>Error\<close>, thrown by the check of
  \<open>response.ok\<close>.
\<close>

fun transport_failure :: "js_error + 'v \<Rightarrow> bool" where
  "transport_failure (Inl (Error m)) = True"
| "transport_failure _ = False"

subsection \<open>Sample hosts for the scenarios\<close>

text \<open>
  A network that answers every request with the response \<open>r\<close>, one that is down, a
  parser that knows the one document of the scenarios and rejects every other body, and
  four responses: the document, a 404, a page that is not JSON, and a success whose body
  breaks off.
\<close>

definition serve :: "response \<Rightarrow> network" where
  "serve r rq = Inr r"

definition offline :: network where
  "offline rq = Inl ''Failed to fetch''"

definition tables_parser :: \<open>unit json json_parser\<close> where
  \<open>tables_parser s =
     (if s = ''{"tables": []}'' then Inr (JObject [(''tables'', JArray [])])
      else Inl ''Unexpected token'')\<close>

definition tables_response :: response where
  \<open>tables_response = \<lparr>status = 200, statusText = ''OK'', headers = [], body = Arrived ''{"tables": []}''\<rparr>\<close>

definition not_found_response :: response where
  "not_found_response = \<lparr>status = 404, statusText = ''Not Found'', headers = [], body = Arrived ''''\<rparr>"

definition html_response :: response where
  "html_response = \<lparr>status = 200, statusText = ''OK'', headers = [], body = Arrived ''<html>''\<rparr>"

definition broken_response :: response where
  "broken_response = \<lparr>status = 200, statusText = ''OK'', headers = [], body = Failed ''network error''\<rparr>"

section \<open>Properties\<close>

subsection \<open>What one evaluation does\<close>

lemma fetch_log: "snd (fetch net input log) = log @ [\<lparr>req_method = ''GET'', req_url = input, req_headers = [], req_body = None\<rparr>]"
  by (simp add: fetch_def Let_def)

lemma data_ts_log: "snd (data_ts net parse log) = log @ [data_request]"
  by (simp add: data_ts_def fetch_def Let_def data_request_def split: sum.splits)

lemma data_ts_received:
  assumes "net data_request = Inr r"
  shows "fst (data_ts net parse log) =
           (if ok r then response_json parse r
            else Inl (Error (''Failed to load data: '' @ statusText r)))"
  using assms by (simp add: data_ts_def fetch_def Let_def data_request_def)

lemma data_ts_no_response:
  assumes "net data_request = Inl m"
  shows "fst (data_ts net parse log) = Inl (TypeError m)"
  using assms by (simp add: data_ts_def fetch_def Let_def data_request_def)

lemma import_first:
  "import_neuralake net parse initial_realm =
     (case fst (data_ts net parse []) of
        Inl e \<Rightarrow> (Inl e, \<lparr>requests = [data_request], data_module = EvaluationError e\<rparr>)
      | Inr v \<Rightarrow> (Inr v, \<lparr>requests = [data_request], data_module = Evaluated v\<rparr>))"
proof -
  obtain x l where xl: "data_ts net parse [] = (x, l)"
    by (cases "data_ts net parse []")
  have "l = [data_request]"
    using data_ts_log [of net parse "[]"] xl by simp
  then show ?thesis
    using xl by (simp add: import_neuralake_def initial_realm_def split: sum.splits)
qed

lemma read_many_evaluated:
  assumes "data_module st = Evaluated v"
  shows "read_many net parse n st = (replicate n (Inr v), st)"
  using assms by (induction n) (simp_all add: import_neuralake_def)

lemma read_many_errored:
  assumes "data_module st = EvaluationError e"
  shows "read_many net parse n st = (replicate n (Inl e), st)"
  using assms by (induction n) (simp_all add: import_neuralake_def)

lemma fst_import: "fst (import_neuralake net parse initial_realm) = fst (data_ts net parse [])"
  by (simp add: import_first split: sum.splits)

lemma requests_import: "requests (snd (import_neuralake net parse initial_realm)) = [data_request]"
  by (simp add: import_first split: sum.splits)

lemma data_module_import:
  "data_module (snd (import_neuralake net parse initial_realm)) =
     (case fst (data_ts net parse []) of Inl e \<Rightarrow> EvaluationError e | Inr v \<Rightarrow> Evaluated v)"
  by (simp add: import_first split: sum.splits)

lemma neuralake_import:
  "neuralake (snd (import_neuralake net parse initial_realm)) =
     (case fst (data_ts net parse []) of Inl e \<Rightarrow> None | Inr v \<Rightarrow> Some v)"
  by (simp add: neuralake_def data_module_import split: sum.splits)

lemma response_json_not_transport_failure: "\<not> transport_failure (response_json parse r)"
  by (simp add: response_json_def split: sum.splits body_read.splits)

lemma data_ts_body_failed:
  assumes "net data_request = Inr r" and "ok r" and "body r = Failed m"
  shows "fst (data_ts net parse log) = Inl (TypeError m)"
  using assms by (simp add: data_ts_received response_json_def)

subsection \<open>The error message\<close>

text \<open>
  C8. For every response whose status is not a success, the error thrown has a message
  exactly equal to "Failed to load data: " followed by the response's status text.
\<close>

theorem failure_message_exact:
  assumes "net data_request = Inr r" and "\<not> ok r"
  shows "fst (data_ts net parse log) = Inl (Error (''Failed to load data: '' @ statusText r))"
  using assms by (simp add: data_ts_received)

theorem failure_message_exact_witness:
  "serve not_found_response data_request = Inr not_found_response
   \<and> \<not> ok not_found_response
   \<and> fst (data_ts (serve not_found_response) tables_parser []) = Inl (Error ''Failed to load data: Not Found'')"
  using failure_message_exact [of "serve not_found_response" not_found_response tables_parser "[]"]
  by (simp add: serve_def ok_def not_found_response_def)

subsection \<open>Success\<close>

text \<open>
  C1. For every response with a success status (2xx) whose body is valid JSON, the value
  the module exposes is the result of parsing the body, whatever its shape (the statement
  holds for every parser and every type of values: nothing validates the value). In
  particular, a status-200 response with body \<open>{"tables": []}\<close> yields the
  exposed value \<open>{"tables": []}\<close>.
\<close>

theorem success_exposes_parsed_body:
  assumes "net data_request = Inr r" and "ok r" and "body r = Arrived b" and "parse b = Inr v"
  shows "fst (data_ts net parse log) = Inr v
         \<and> neuralake (snd (import_neuralake net parse initial_realm)) = Some v"
  using assms by (simp add: data_ts_received neuralake_import response_json_def)

theorem success_exposes_parsed_body_witness:
  \<open>serve tables_response data_request = Inr tables_response
   \<and> status tables_response = 200
   \<and> ok tables_response
   \<and> body tables_response = Arrived ''{"tables": []}''
   \<and> tables_parser ''{"tables": []}'' = Inr (JObject [(''tables'', JArray [])])
   \<and> fst (data_ts (serve tables_response) tables_parser []) = Inr (JObject [(''tables'', JArray [])])
   \<and> neuralake (snd (import_neuralake (serve tables_response) tables_parser initial_realm))
       = Some (JObject [(''tables'', JArray [])])\<close>
  using success_exposes_parsed_body
          [where net = \<open>serve tables_response\<close> and r = tables_response and parse = tables_parser
             and b = \<open>''{"tables": []}''\<close> and v = \<open>JObject [(''tables'', JArray [])]\<close>
             and log = \<open>[]\<close>]
  by (simp add: serve_def ok_def tables_response_def tables_parser_def)

subsection \<open>Failure on a status that is not a success\<close>

text \<open>
  C2. For every response with a status outside 2xx, the module fails by throwing an error
  whose message contains the response's status text; in particular, a status-404 response
  with status text "Not Found" produces the message "Failed to load data: Not Found".
\<close>

theorem failure_message_contains_status_text:
  assumes "net data_request = Inr r" and "\<not> ok r"
  shows "(\<exists>msg pre suf. fst (data_ts net parse log) = Inl (Error msg) \<and> msg = pre @ statusText r @ suf)
         \<and> (status r = 404 \<and> statusText r = ''Not Found'' \<longrightarrow>
              fst (data_ts net parse log) = Inl (Error ''Failed to load data: Not Found''))"
proof -
  have thrown: "fst (data_ts net parse log) = Inl (Error (''Failed to load data: '' @ statusText r))"
    using assms by (simp add: data_ts_received)
  have "''Failed to load data: '' @ statusText r = ''Failed to load data: '' @ statusText r @ []"
    by simp
  with thrown have "\<exists>msg pre suf. fst (data_ts net parse log) = Inl (Error msg) \<and> msg = pre @ statusText r @ suf"
    by blast
  moreover have "statusText r = ''Not Found'' \<longrightarrow>
      fst (data_ts net parse log) = Inl (Error ''Failed to load data: Not Found'')"
    using thrown by simp
  ultimately show ?thesis by blast
qed

theorem failure_message_contains_status_text_witness:
  "serve not_found_response data_request = Inr not_found_response
   \<and> \<not> ok not_found_response
   \<and> status not_found_response = 404
   \<and> statusText not_found_response = ''Not Found''
   \<and> fst (data_ts (serve not_found_response) tables_parser []) = Inl (Error ''Failed to load data: Not Found'')"
  using failure_message_contains_status_text
          [of "serve not_found_response" not_found_response tables_parser "[]"]
  by (simp add: serve_def ok_def not_found_response_def)

text \<open>
  C5. The module treats a response as a transport success exactly when its status code is
  in 200..299: it throws its own error if and only if the status is outside that range,
  and goes on to read the body if and only if it is inside. Outside the range it fails at
  once with the error carrying the status text: the parser plays no part in the result,
  one request has been sent and no second one follows (no retry), and the binding holds
  no value (no fallback, no partial result).
\<close>

theorem status_range_decides:
  assumes "net data_request = Inr r"
  shows "(transport_failure (fst (data_ts net parse log)) \<longleftrightarrow> \<not> (200 \<le> status r \<and> status r \<le> 299))
         \<and> (fst (data_ts net parse log) = response_json parse r \<longleftrightarrow> 200 \<le> status r \<and> status r \<le> 299)
         \<and> (\<not> (200 \<le> status r \<and> status r \<le> 299) \<longrightarrow>
              fst (data_ts net parse log) = Inl (Error (''Failed to load data: '' @ statusText r))
              \<and> snd (data_ts net parse log) = log @ [data_request]
              \<and> fst (import_neuralake net parse initial_realm)
                  = Inl (Error (''Failed to load data: '' @ statusText r))
              \<and> requests (snd (import_neuralake net parse initial_realm)) = [data_request]
              \<and> neuralake (snd (import_neuralake net parse initial_realm)) = None)"
proof (cases "ok r")
  case True
  then have "200 \<le> status r \<and> status r \<le> 299"
    by (simp add: ok_def)
  moreover have "fst (data_ts net parse log) = response_json parse r"
    using assms True by (simp add: data_ts_received)
  moreover have "\<not> transport_failure (response_json parse r)"
    by (rule response_json_not_transport_failure)
  ultimately show ?thesis by simp
next
  case False
  then have out: "\<not> (200 \<le> status r \<and> status r \<le> 299)"
    by (simp add: ok_def)
  have thrown: "fst (data_ts net parse log) = Inl (Error (''Failed to load data: '' @ statusText r))"
    using assms False by (simp add: data_ts_received)
  have thrown0: "fst (data_ts net parse []) = Inl (Error (''Failed to load data: '' @ statusText r))"
    using assms False by (simp add: data_ts_received)
  have "transport_failure (fst (data_ts net parse log))"
    by (simp add: thrown)
  then have "fst (data_ts net parse log) \<noteq> response_json parse r"
    using response_json_not_transport_failure [of parse r] by metis
  then show ?thesis
    using out thrown thrown0
    by (simp add: data_ts_log fst_import requests_import neuralake_import)
qed

theorem status_range_decides_witness:
  "serve not_found_response data_request = Inr not_found_response
   \<and> \<not> (200 \<le> status not_found_response \<and> status not_found_response \<le> 299)
   \<and> transport_failure (fst (data_ts (serve not_found_response) tables_parser []))
   \<and> requests (snd (import_neuralake (serve not_found_response) tables_parser initial_realm)) = [data_request]
   \<and> neuralake (snd (import_neuralake (serve not_found_response) tables_parser initial_realm)) = None"
  using status_range_decides [of "serve not_found_response" not_found_response tables_parser "[]"]
  by (simp add: serve_def not_found_response_def)

subsection \<open>The kinds of error\<close>

text \<open>
  C3, as stated: the module raises a transport failure if and only if the response
  indicates non-success, and that is its only kind of error. The second half fails: a
  success response whose body is not JSON ends the module with a \<open>SyntaxError\<close>, which is
  not a transport failure.
\<close>

theorem only_error_kind_counterexample:
  "ok html_response
   \<and> fst (data_ts (serve html_response) tables_parser []) = Inl (SyntaxError ''Unexpected token'')
   \<and> \<not> transport_failure (fst (data_ts (serve html_response) tables_parser []))
   \<and> isl (fst (data_ts (serve html_response) tables_parser []))"
  by (simp add: data_ts_received serve_def ok_def html_response_def response_json_def
      tables_parser_def)

text \<open>
  C3, amended. For a response received, the module raises a transport failure if and only
  if the response indicates non-success. It is not the only kind of error: a success
  response whose body is not valid JSON raises a parse error, which is not a transport
  failure.
\<close>

theorem transport_failure_iff_non_success:
  assumes "net data_request = Inr r"
  shows "(transport_failure (fst (data_ts net parse log)) \<longleftrightarrow> \<not> ok r)
         \<and> (ok r \<and> body r = Arrived b \<and> parse b = Inl m \<longrightarrow>
              fst (data_ts net parse log) = Inl (SyntaxError m)
              \<and> \<not> transport_failure (fst (data_ts net parse log)))"
proof (cases "ok r")
  case True
  then have run: "fst (data_ts net parse log) = response_json parse r"
    using assms by (simp add: data_ts_received)
  have "\<not> transport_failure (response_json parse r)"
    by (rule response_json_not_transport_failure)
  moreover have "response_json parse r = Inl (SyntaxError m)"
    if "body r = Arrived b" and "parse b = Inl m"
    using that by (simp add: response_json_def)
  ultimately show ?thesis
    using True run by simp
next
  case False
  then show ?thesis
    using assms by (simp add: data_ts_received)
qed

theorem transport_failure_iff_non_success_witness:
  "serve html_response data_request = Inr html_response
   \<and> ok html_response
   \<and> body html_response = Arrived ''<html>''
   \<and> tables_parser ''<html>'' = Inl ''Unexpected token''
   \<and> fst (data_ts (serve html_response) tables_parser []) = Inl (SyntaxError ''Unexpected token'')
   \<and> \<not> transport_failure (fst (data_ts (serve html_response) tables_parser []))
   \<and> serve not_found_response data_request = Inr not_found_response
   \<and> \<not> ok not_found_response
   \<and> transport_failure (fst (data_ts (serve not_found_response) tables_parser []))"
  using transport_failure_iff_non_success
          [where net = "serve html_response" and r = html_response and parse = tables_parser
             and b = "''<html>''" and m = "''Unexpected token''" and log = "[]"]
    transport_failure_iff_non_success
          [where net = "serve not_found_response" and r = not_found_response
             and parse = tables_parser and b = "''<html>''" and m = "''Unexpected token''"
             and log = "[]"]
  by (simp add: serve_def ok_def html_response_def not_found_response_def tables_parser_def)

text \<open>
  C4. For every response with status 200 whose body is not valid JSON, the module fails
  with the parse error, and that error is what the importer of the module receives: it is
  not caught and no value is bound.
\<close>

theorem malformed_body_raises_parse_error:
  assumes "net data_request = Inr r" and "status r = 200"
    and "body r = Arrived b" and "parse b = Inl m"
  shows "fst (data_ts net parse log) = Inl (SyntaxError m)
         \<and> fst (import_neuralake net parse initial_realm) = Inl (SyntaxError m)
         \<and> neuralake (snd (import_neuralake net parse initial_realm)) = None"
proof -
  have "ok r"
    using assms(2) by (simp add: ok_def)
  then have "fst (data_ts net parse l) = Inl (SyntaxError m)" for l
    using assms(1,3,4) by (simp add: data_ts_received response_json_def)
  then show ?thesis
    by (simp add: fst_import neuralake_import)
qed

theorem malformed_body_raises_parse_error_witness:
  "serve html_response data_request = Inr html_response
   \<and> status html_response = 200
   \<and> body html_response = Arrived ''<html>''
   \<and> tables_parser ''<html>'' = Inl ''Unexpected token''
   \<and> fst (import_neuralake (serve html_response) tables_parser initial_realm)
       = Inl (SyntaxError ''Unexpected token'')"
  using malformed_body_raises_parse_error
          [where net = "serve html_response" and r = html_response and parse = tables_parser
             and b = "''<html>''" and m = "''Unexpected token''" and log = "[]"]
  by (simp add: serve_def html_response_def tables_parser_def)

subsection \<open>The request\<close>

text \<open>
  C6. Every evaluation of the module sends exactly one request: a GET of the fixed path
  \<open>/data.json\<close>, with no headers, no body and no query part. The request is the same for
  every network and every parser, and is sent whatever the outcome.
\<close>

theorem one_get_request:
  "snd (data_ts net parse log) =
     log @ [\<lparr>req_method = ''GET'', req_url = ''/data.json'', req_headers = [], req_body = None\<rparr>]
   \<and> requests (snd (import_neuralake net parse initial_realm)) =
       [\<lparr>req_method = ''GET'', req_url = ''/data.json'', req_headers = [], req_body = None\<rparr>]
   \<and> CHR ''?'' \<notin> set (req_url data_request)"
  using data_ts_log [of net parse log] requests_import [of net parse]
  by (simp add: data_request_def)

theorem one_get_request_witness:
  "length (snd (data_ts offline tables_parser [])) = 1
   \<and> requests (snd (import_neuralake (serve not_found_response) tables_parser initial_realm)) =
       [\<lparr>req_method = ''GET'', req_url = ''/data.json'', req_headers = [], req_body = None\<rparr>]"
  using one_get_request [of offline tables_parser "[]"]
    one_get_request [of "serve not_found_response" tables_parser "[]"]
  by simp

subsection \<open>After evaluation\<close>

text \<open>
  C7. After a successful load, importing and reading the exposed value any number of
  times yields the same value each time and leaves the realm as it was: the log of
  requests still holds the one request of the evaluation, whatever the network and the
  parser have become by then.
\<close>

theorem reads_never_refetch:
  assumes "import_neuralake net parse initial_realm = (Inr v, st)"
  shows "read_many net' parse' n st = (replicate n (Inr v), st)
         \<and> requests (snd (read_many net' parse' n st)) = [data_request]
         \<and> neuralake st = Some v"
proof -
  have st: "st = snd (import_neuralake net parse initial_realm)"
    and v: "fst (import_neuralake net parse initial_realm) = Inr v"
    using assms by simp_all
  from v have run: "fst (data_ts net parse []) = Inr v"
    by (simp add: fst_import)
  have evaluated: "data_module st = Evaluated v"
    unfolding st by (simp add: data_module_import run)
  have log: "requests st = [data_request]"
    unfolding st by (rule requests_import)
  show ?thesis
    using evaluated log by (simp add: read_many_evaluated neuralake_def)
qed

theorem reads_never_refetch_witness:
  \<open>import_neuralake (serve tables_response) tables_parser initial_realm
     = (Inr (JObject [(''tables'', JArray [])]),
        \<lparr>requests = [data_request], data_module = Evaluated (JObject [(''tables'', JArray [])])\<rparr>)
   \<and> fst (read_many offline tables_parser 3
        \<lparr>requests = [data_request], data_module = Evaluated (JObject [(''tables'', JArray [])])\<rparr>)
       = replicate 3 (Inr (JObject [(''tables'', JArray [])]))
   \<and> requests (snd (read_many offline tables_parser 3
        \<lparr>requests = [data_request], data_module = Evaluated (JObject [(''tables'', JArray [])])\<rparr>))
       = [data_request]\<close>
proof -
  have first: \<open>import_neuralake (serve tables_response) tables_parser initial_realm
     = (Inr (JObject [(''tables'', JArray [])]),
        \<lparr>requests = [data_request], data_module = Evaluated (JObject [(''tables'', JArray [])])\<rparr>)\<close>
    by (simp add: import_first data_ts_received serve_def ok_def tables_response_def
        response_json_def tables_parser_def)
  show ?thesis
    using first reads_never_refetch [OF first, of offline tables_parser 3] by simp
qed

text \<open>
  C9. On a failure (a status that is not a success, a body that does not parse, or a body
  that breaks off before its end) the module exposes no value: the binding \<open>neuralake\<close> is never initialised, and every later
  import ends with the error of the evaluation again, so a consumer never observes a
  value, partial or default.
\<close>

theorem failure_exposes_no_value:
  assumes "net data_request = Inr r"
    and "\<not> ok r \<or> (body r = Arrived b \<and> isl (parse b)) \<or> body r = Failed m"
  shows "isl (fst (import_neuralake net parse initial_realm))
         \<and> neuralake (snd (import_neuralake net parse initial_realm)) = None
         \<and> fst (read_many net' parse' n (snd (import_neuralake net parse initial_realm)))
             = replicate n (fst (import_neuralake net parse initial_realm))
         \<and> neuralake (snd (read_many net' parse' n (snd (import_neuralake net parse initial_realm)))) = None"
proof -
  have "isl (fst (data_ts net parse []))"
    using assms by (auto simp add: data_ts_received response_json_def split: sum.splits)
  then obtain e where run: "fst (data_ts net parse []) = Inl e"
    by (cases "fst (data_ts net parse [])") simp_all
  have errored: "data_module (snd (import_neuralake net parse initial_realm)) = EvaluationError e"
    by (simp add: data_module_import run)
  show ?thesis
    using errored by (simp add: fst_import run read_many_errored neuralake_def)
qed

theorem failure_exposes_no_value_witness:
  "serve not_found_response data_request = Inr not_found_response
   \<and> \<not> ok not_found_response
   \<and> neuralake (snd (import_neuralake (serve not_found_response) tables_parser initial_realm)) = None
   \<and> serve html_response data_request = Inr html_response
   \<and> body html_response = Arrived ''<html>''
   \<and> isl (tables_parser ''<html>'')
   \<and> neuralake (snd (import_neuralake (serve html_response) tables_parser initial_realm)) = None
   \<and> serve broken_response data_request = Inr broken_response
   \<and> body broken_response = Failed ''network error''
   \<and> neuralake (snd (import_neuralake (serve broken_response) tables_parser initial_realm)) = None"
  using failure_exposes_no_value
          [where net = "serve not_found_response" and r = not_found_response
             and parse = tables_parser and b = "''<html>''" and m = "''network error''"]
    failure_exposes_no_value
          [where net = "serve html_response" and r = html_response
             and parse = tables_parser and b = "''<html>''" and m = "''network error''"]
    failure_exposes_no_value
          [where net = "serve broken_response" and r = broken_response
             and parse = tables_parser and b = "''<html>''" and m = "''network error''"]
  by (simp add: serve_def ok_def not_found_response_def html_response_def broken_response_def
      tables_parser_def)

subsection \<open>Determinism\<close>

text \<open>
  C10. The outcome is a function of the response's status, status text and body: two
  evaluations whose responses agree on these three end alike, with the same exposed value
  or the same error, whatever else differs (the headers of the response, the rest of the
  network, the requests logged before).
\<close>

theorem outcome_depends_on_status_text_body:
  assumes "net1 data_request = Inr r1" and "net2 data_request = Inr r2"
    and "status r1 = status r2" and "statusText r1 = statusText r2" and "body r1 = body r2"
  shows "fst (data_ts net1 parse log1) = fst (data_ts net2 parse log2)
         \<and> fst (import_neuralake net1 parse initial_realm) = fst (import_neuralake net2 parse initial_realm)
         \<and> neuralake (snd (import_neuralake net1 parse initial_realm))
             = neuralake (snd (import_neuralake net2 parse initial_realm))"
proof -
  have "ok r1 = ok r2"
    using assms(3) by (simp add: ok_def)
  moreover have "response_json parse r1 = response_json parse r2"
    using assms(5) by (simp add: response_json_def)
  ultimately have same: "fst (data_ts net1 parse l1) = fst (data_ts net2 parse l2)" for l1 l2
    using assms(1,2,4) by (simp add: data_ts_received)
  have "fst (data_ts net1 parse log1) = fst (data_ts net2 parse log2)"
    by (rule same)
  moreover have "fst (import_neuralake net1 parse initial_realm) = fst (import_neuralake net2 parse initial_realm)"
    by (simp only: fst_import same [of "[]" "[]"])
  moreover have "neuralake (snd (import_neuralake net1 parse initial_realm))
      = neuralake (snd (import_neuralake net2 parse initial_realm))"
    by (simp only: neuralake_import same [of "[]" "[]"])
  ultimately show ?thesis by blast
qed

theorem outcome_depends_on_status_text_body_witness:
  \<open>serve tables_response data_request = Inr tables_response
   \<and> serve (tables_response\<lparr>headers := [(''content-type'', ''text/plain'')]\<rparr>) data_request
       = Inr (tables_response\<lparr>headers := [(''content-type'', ''text/plain'')]\<rparr>)
   \<and> tables_response \<noteq> tables_response\<lparr>headers := [(''content-type'', ''text/plain'')]\<rparr>
   \<and> fst (data_ts (serve tables_response) tables_parser [])
       = fst (data_ts (serve (tables_response\<lparr>headers := [(''content-type'', ''text/plain'')]\<rparr>))
               tables_parser [data_request])\<close>
  using outcome_depends_on_status_text_body
          [of "serve tables_response" tables_response
              "serve (tables_response\<lparr>headers := [(''content-type'', ''text/plain'')]\<rparr>)"
              "tables_response\<lparr>headers := [(''content-type'', ''text/plain'')]\<rparr>"
              tables_parser "[]" "[data_request]"]
  by (simp add: serve_def tables_response_def)

end
